theory Spec2Isabelle
  imports Main "HOL-Library.Word"
begin

section \<open>Pulse generator (main/pulse.c): data model\<close>

text \<open>
  The source file holds two variants of the program.  The second variant (the one with
  \<open>generator_state_t\<close>, pause/resume, PPS entry and pulse limits) is modelled under the
  source's names.  The few pieces of the first variant that are needed (its interval
  computation and its \<open>configure_single_output\<close>) carry the suffix \<open>_v1\<close> where a name
  would clash.

  C \<open>int\<close> values are modelled as \<open>int\<close>: every value that reaches arithmetic below is
  bounded by the range checks of \<open>read_int_from_uart\<close>, and the only unbounded counter
  (\<open>pulse_count\<close> with \<open>max_pulses = 0\<close>) does not enter any statement about overflow.
  The millisecond clock is the source's \<open>uint32_t\<close>, a \<open>32 word\<close>, and the due test is the
  unsigned comparison C performs.
\<close>

datatype pulse_mode_t = MODE_DEFINED | MODE_RANDOM

datatype generator_state_t = STATE_RUNNING | STATE_PAUSED | STATE_STOPPED

record pulse_config_t =
  gpio :: int
  interval_ms :: int
  pulse_duration_ms :: int
  mode :: pulse_mode_t
  label :: string
  max_pulses :: int
  pps :: int
  state :: generator_state_t
  pulse_count :: int

definition GPIO_OUT_1 :: int where "GPIO_OUT_1 = 4"
definition GPIO_OUT_2 :: int where "GPIO_OUT_2 = 5"
definition MAX_PPS :: int where "MAX_PPS = 1000"
definition MIN_PPS :: int where "MIN_PPS = 1"
definition MAX_INTERVAL_MS :: int where "MAX_INTERVAL_MS = 3600000"
definition MIN_INTERVAL_MS :: int where "MIN_INTERVAL_MS = 1000 div MAX_PPS"
definition MIN_PULSE_MS :: int where "MIN_PULSE_MS = 1"
definition MAX_PULSE_MS :: int where "MAX_PULSE_MS = 10000"
definition MIN_SAFE_INTERVAL_MS :: int where "MIN_SAFE_INTERVAL_MS = 2"
definition INT_MAX :: int where "INT_MAX = 2147483647"

section \<open>Serial input\<close>

text \<open>
  The bytes the operator will type are a \<open>char list\<close>; every reader consumes a prefix and
  returns the rest.  \<open>uart_read_char\<close> blocks until a byte arrives, so running out of
  input is the fault \<open>NoMoreInput\<close> (the call never returns).  A division by zero is the
  fault \<open>DivisionByZero\<close>.  Echo and prompt output is not modelled.
\<close>

datatype fault = NoMoreInput | DivisionByZero

definition uart_read_char :: "char list \<Rightarrow> fault + (char \<times> char list)" where
  "uart_read_char keys = (case keys of [] \<Rightarrow> Inl NoMoreInput | c # ks \<Rightarrow> Inr (c, ks))"

definition c_div :: "int \<Rightarrow> int \<Rightarrow> fault + int" where
  \<comment> \<open>C integer division: traps on a zero divisor, truncates toward zero otherwise.\<close>
  "c_div a b = (if b = 0 then Inl DivisionByZero else Inr (sgn a * sgn b * (\<bar>a\<bar> div \<bar>b\<bar>)))"

definition is_digit :: "char \<Rightarrow> bool" where
  \<comment> \<open>\<open>c >= '0' && c <= '9'\<close>\<close>
  "is_digit c = (48 \<le> (of_char c :: nat) \<and> (of_char c :: nat) \<le> 57)"

definition digit_val :: "char \<Rightarrow> int" where
  "digit_val c = int (of_char c) - 48"

definition atoi :: "char list \<Rightarrow> int" where
  \<comment> \<open>The buffers passed here hold digits followed by NUL bytes only, so the value is that
      of the leading run of digits.  C leaves overflow undefined; the target's libc
      computes \<open>(int) strtol(s, NULL, 10)\<close>, which saturates at \<open>INT_MAX\<close>.\<close>
  "atoi s = min INT_MAX (foldl (\<lambda>acc c. acc * 10 + digit_val c) 0 (takeWhile is_digit s))"

text \<open>
  The entry loop of \<open>read_int_from_uart\<close> (second variant): \<open>input\<close> is the 12-byte buffer,
  \<open>index\<close> the write position.  Backspace (8 or 127) only moves \<open>index\<close> back; the byte
  stays in the buffer.
\<close>

fun read_loop :: "char list \<Rightarrow> nat \<Rightarrow> char list \<Rightarrow> fault + ((char list \<times> nat) \<times> char list)" where
  "read_loop input index keys =
     (if index < 11 then
        (case keys of
           [] \<Rightarrow> Inl NoMoreInput
         | c # ks \<Rightarrow>
             if c = CHR 0x0D \<or> c = CHR 0x0A then
               (if index > 0 then Inr ((input, index), ks) else read_loop input index ks)
             else if c = CHR 0x08 \<or> c = CHR 0x7F then
               (if index > 0 then read_loop input (index - 1) ks else read_loop input index ks)
             else if is_digit c then read_loop (input[index := c]) (index + 1) ks
             else read_loop input index ks)
      else Inr ((input, index), keys))"

definition read_int_from_uart :: "int \<Rightarrow> int \<Rightarrow> char list \<Rightarrow> fault + (int \<times> char list)" where
  "read_int_from_uart min_val max_val keys =
     (case read_loop (replicate 12 (CHR 0x00)) 0 keys of
        Inl e \<Rightarrow> Inl e
      | Inr ((input, index), ks) \<Rightarrow>
          if index = 0 then Inr (- 1, ks)
          else let v = atoi input in
               if v < min_val \<or> v > max_val then Inr (- 1, ks) else Inr (v, ks))"

definition ask_pps_config :: "char list \<Rightarrow> fault + (int \<times> char list)" where
  "ask_pps_config keys =
     (case uart_read_char keys of
        Inl e \<Rightarrow> Inl e
      | Inr (c, ks) \<Rightarrow>
          if c = CHR ''P'' \<or> c = CHR ''p'' then
            (case read_int_from_uart MIN_PPS MAX_PPS ks of
               Inl e \<Rightarrow> Inl e
             | Inr (pps_in, ks') \<Rightarrow>
                 if pps_in < 0 then Inr (- 1, ks')
                 else (case c_div 1000 pps_in of
                         Inl e \<Rightarrow> Inl e
                       | Inr interval \<Rightarrow> Inr (interval, ks')))
          else read_int_from_uart MIN_INTERVAL_MS MAX_INTERVAL_MS ks)"

definition select_mode :: "char list \<Rightarrow> fault + (pulse_mode_t \<times> char list)" where
  "select_mode keys =
     (case uart_read_char keys of
        Inl e \<Rightarrow> Inl e
      | Inr (c, ks) \<Rightarrow>
          Inr (if c = CHR ''D'' \<or> c = CHR ''d'' then MODE_DEFINED else MODE_RANDOM, ks))"

definition ask_pulse_limit :: "char list \<Rightarrow> fault + (int \<times> char list)" where
  "ask_pulse_limit keys =
     (case uart_read_char keys of
        Inl e \<Rightarrow> Inl e
      | Inr (c, ks) \<Rightarrow>
          if c = CHR ''S'' \<or> c = CHR ''s'' then read_int_from_uart 1 1000000 ks
          else Inr (0, ks))"

text \<open>
  \<open>configure_output\<close> fills the slot \<open>active_configs[output_num - 1]\<close> in place; the model
  takes the slot's old contents and returns the flag together with the slot as the call
  leaves it, also on the early returns.
\<close>

definition configure_output ::
  "int \<Rightarrow> int \<Rightarrow> pulse_config_t \<Rightarrow> char list \<Rightarrow> fault + ((bool \<times> pulse_config_t) \<times> char list)" where
  "configure_output output_num gpio_no slot keys =
     (let c0 = slot\<lparr>gpio := gpio_no, label := (if output_num = 1 then ''OUT1'' else ''OUT2'')\<rparr> in
      case ask_pps_config keys of
        Inl e \<Rightarrow> Inl e
      | Inr (iv, k1) \<Rightarrow>
          let c1 = c0\<lparr>interval_ms := iv\<rparr> in
          if interval_ms c1 < 0 then Inr ((False, c1), k1)
          else
            (case read_int_from_uart MIN_PULSE_MS MAX_PULSE_MS k1 of
               Inl e \<Rightarrow> Inl e
             | Inr (pd, k2) \<Rightarrow>
                 let c2 = c1\<lparr>pulse_duration_ms := pd\<rparr> in
                 if pulse_duration_ms c2 < 0 then Inr ((False, c2), k2)
                 else
                   (case select_mode k2 of
                      Inl e \<Rightarrow> Inl e
                    | Inr (m, k3) \<Rightarrow>
                        (case ask_pulse_limit k3 of
                           Inl e \<Rightarrow> Inl e
                         | Inr (lim, k4) \<Rightarrow>
                             (case c_div 1000 (interval_ms c2) of
                                Inl e \<Rightarrow> Inl e
                              | Inr p \<Rightarrow>
                                  Inr ((True,
                                        c2\<lparr>mode := m, max_pulses := lim, pps := p,
                                           state := STATE_STOPPED, pulse_count := 0\<rparr>),
                                       k4))))))"

section \<open>Pulse scheduler\<close>

text \<open>
  What the task does to the outside is a list of events: \<open>gpio_set_level\<close> calls and
  \<open>vTaskDelay\<close> calls (argument in milliseconds).  What the task reads from the outside
  at each evaluation of the loop condition is one \<open>poll\<close>: the value of the volatile
  \<open>system_running\<close>, the last value another task has stored into \<open>config->state\<close>
  since the previous poll (if any), and the reading of
  \<open>xTaskGetTickCount() * portTICK_PERIOD_MS\<close>.  A loop that has not left when the polls
  run out has not returned: the result is \<open>None\<close>.
\<close>

datatype event = GpioSet int nat | TaskDelay int

record poll =
  sys_running :: bool
  ext_state :: "generator_state_t option"
  now :: "32 word"

type_synonym task_vars = "pulse_config_t \<times> 32 word \<times> event list"

definition generate_pulse :: "int \<Rightarrow> int \<Rightarrow> event list" where
  "generate_pulse gpio_no duration = [GpioSet gpio_no 0, TaskDelay duration, GpioSet gpio_no 1]"

definition ext_write :: "poll \<Rightarrow> pulse_config_t \<Rightarrow> pulse_config_t" where
  "ext_write p config = (case ext_state p of None \<Rightarrow> config | Some s \<Rightarrow> config\<lparr>state := s\<rparr>)"

definition loop_cond :: "poll \<Rightarrow> pulse_config_t \<Rightarrow> bool" where
  "loop_cond p config =
     (sys_running p \<and> (max_pulses config = 0 \<or> pulse_count config < max_pulses config))"

definition loop_body :: "poll \<Rightarrow> pulse_config_t \<Rightarrow> 32 word \<Rightarrow> task_vars" where
  "loop_body p config last_pulse_time =
     (if state config = STATE_PAUSED then (config, last_pulse_time, [TaskDelay 100])
      else
        let current_time = now p in
        if word_of_int (interval_ms config) \<le> current_time - last_pulse_time then
          (config\<lparr>pulse_count := pulse_count config + 1\<rparr>, current_time,
           generate_pulse (gpio config) (pulse_duration_ms config) @ [TaskDelay 1])
        else (config, last_pulse_time, [TaskDelay 1]))"

definition emit :: "event list \<Rightarrow> task_vars option \<Rightarrow> task_vars option" where
  "emit evs r = map_option (\<lambda>(c, l, evs'). (c, l, evs @ evs')) r"

fun pulse_loop :: "poll list \<Rightarrow> pulse_config_t \<Rightarrow> 32 word \<Rightarrow> task_vars option" where
  "pulse_loop [] config last_pulse_time = None"
| "pulse_loop (p # ps) config last_pulse_time =
     (let config = ext_write p config in
      if loop_cond p config then
        (case loop_body p config last_pulse_time of
           (config', last', evs) \<Rightarrow> emit evs (pulse_loop ps config' last'))
      else Some (config, last_pulse_time, []))"

fun end_signal :: "nat \<Rightarrow> int \<Rightarrow> event list" where
  "end_signal 0 gpio_no = []"
| "end_signal (Suc n) gpio_no =
     [GpioSet gpio_no 0, TaskDelay 100, GpioSet gpio_no 1, TaskDelay 100] @ end_signal n gpio_no"

definition task_end :: "task_vars option \<Rightarrow> (pulse_config_t option \<times> event list) option" where
  \<comment> \<open>What follows the main loop: \<open>state = STATE_STOPPED\<close> and the end-of-run signal.\<close>
  "task_end r =
     (case r of
        None \<Rightarrow> None
      | Some (config, last', evs) \<Rightarrow>
          Some (Some (config\<lparr>state := STATE_STOPPED\<rparr>), evs @ end_signal 3 (gpio config)))"

definition pulse_task ::
  "poll list \<Rightarrow> pulse_config_t option \<Rightarrow> (pulse_config_t option \<times> event list) option" where
  "pulse_task ps pvParameter =
     (case pvParameter of
        None \<Rightarrow> Some (None, [])
      | Some config \<Rightarrow>
          task_end (emit [GpioSet (gpio config) 1]
                      (pulse_loop ps (config\<lparr>state := STATE_RUNNING, pulse_count := 0\<rparr>) 0)))"

definition falling_edges :: "int \<Rightarrow> event list \<Rightarrow> nat" where
  "falling_edges gpio_no evs = length (filter (\<lambda>e. e = GpioSet gpio_no 0) evs)"


section \<open>Session state shared between the tasks\<close>

record world =
  active_configs :: "pulse_config_t list"
  active_outputs :: int
  system_running :: bool
  pause_requested :: bool

definition set_states :: "generator_state_t \<Rightarrow> world \<Rightarrow> world" where
  \<comment> \<open>\<open>for (int i = 0; i < active_outputs; i++) active_configs[i].state = s;\<close>\<close>
  "set_states s w =
     w\<lparr>active_configs :=
         fold (\<lambda>i cs. cs[i := (cs ! i)\<lparr>state := s\<rparr>]) [0 ..< nat (active_outputs w)]
           (active_configs w)\<rparr>"

definition handle_pause_system :: "world \<Rightarrow> world" where
  "handle_pause_system w =
     (let w' = w\<lparr>pause_requested := \<not> pause_requested w\<rparr> in
      if pause_requested w' then set_states STATE_PAUSED w' else set_states STATE_RUNNING w')"

definition task_on :: "world \<Rightarrow> nat option \<Rightarrow> poll list \<Rightarrow> (world \<times> event list) option" where
  \<comment> \<open>The task started with \<open>pvParameter = &active_configs[i]\<close> (or \<open>NULL\<close>): what it leaves
      in the shared state when it returns.\<close>
  "task_on w ptr ps =
     (case pulse_task ps (map_option (\<lambda>i. active_configs w ! i) ptr) of
        None \<Rightarrow> None
      | Some (r, evs) \<Rightarrow>
          Some (case (ptr, r) of
                  (Some i, Some c) \<Rightarrow> w\<lparr>active_configs := (active_configs w)[i := c]\<rparr>
                | _ \<Rightarrow> w,
                evs))"

section \<open>The first variant: validation and interval computation\<close>

text \<open>
  The first variant of the file has no pause, no PPS entry and no pulse limit; its task
  computes the interval of every cycle itself.  \<open>read_int_from_uart\<close> there has a 10-byte
  buffer and no backspace; \<open>select_mode\<close> waits for one of \<open>D d R r\<close>;
  \<open>configure_single_output\<close> returns \<open>NULL\<close> (here \<open>None\<close>) on every failure, \<open>malloc_ok\<close>
  being whether the allocation succeeds.  \<open>pulse_task_interval_v1\<close> is the head of the
  task's loop body: the value of \<open>interval\<close> passed to \<open>generate_pulse\<close>, given the value
  \<open>esp_random()\<close> returns.  The arithmetic of the random branch is unsigned 32-bit, and
  the result is converted back to \<open>int\<close>.
\<close>

record pulse_config_v1 =
  gpio_v1 :: int
  interval_ms_v1 :: int
  pulse_duration_ms_v1 :: int
  mode_v1 :: pulse_mode_t
  label_v1 :: string

definition MIN_INTERVAL_MS_v1 :: int where "MIN_INTERVAL_MS_v1 = 200"
definition MAX_INTERVAL_MS_v1 :: int where "MAX_INTERVAL_MS_v1 = 3600 * 1000"
definition MIN_PULSE_MS_v1 :: int where "MIN_PULSE_MS_v1 = 100"

fun read_loop_v1 :: "char list \<Rightarrow> nat \<Rightarrow> char list \<Rightarrow> fault + ((char list \<times> nat) \<times> char list)" where
  "read_loop_v1 input index keys =
     (if index < 9 then
        (case keys of
           [] \<Rightarrow> Inl NoMoreInput
         | c # ks \<Rightarrow>
             if c = CHR 0x0D \<or> c = CHR 0x0A then
               (if index > 0 then Inr ((input, index), ks) else read_loop_v1 input index ks)
             else if is_digit c then read_loop_v1 (input[index := c]) (index + 1) ks
             else read_loop_v1 input index ks)
      else Inr ((input, index), keys))"

definition read_int_from_uart_v1 :: "int \<Rightarrow> int \<Rightarrow> char list \<Rightarrow> fault + (int \<times> char list)" where
  "read_int_from_uart_v1 min_val max_val keys =
     (case read_loop_v1 (replicate 10 (CHR 0x00)) 0 keys of
        Inl e \<Rightarrow> Inl e
      | Inr ((input, index), ks) \<Rightarrow>
          let v = atoi input in
          if v < min_val \<or> v > max_val then Inr (- 1, ks) else Inr (v, ks))"

fun select_mode_v1 :: "char list \<Rightarrow> fault + (pulse_mode_t \<times> char list)" where
  "select_mode_v1 [] = Inl NoMoreInput"
| "select_mode_v1 (c # ks) =
     (if c \<noteq> CHR ''D'' \<and> c \<noteq> CHR ''d'' \<and> c \<noteq> CHR ''R'' \<and> c \<noteq> CHR ''r'' then select_mode_v1 ks
      else Inr (if c = CHR ''D'' \<or> c = CHR ''d'' then MODE_DEFINED else MODE_RANDOM, ks))"

definition configure_single_output ::
  "int \<Rightarrow> int \<Rightarrow> bool \<Rightarrow> char list \<Rightarrow> fault + (pulse_config_v1 option \<times> char list)" where
  "configure_single_output output_number gpio_no malloc_ok keys =
     (case read_int_from_uart_v1 MIN_INTERVAL_MS_v1 MAX_INTERVAL_MS_v1 keys of
        Inl e \<Rightarrow> Inl e
      | Inr (interval, k1) \<Rightarrow>
          if interval < 0 then Inr (None, k1)
          else
            (case read_int_from_uart_v1 MIN_PULSE_MS_v1 MAX_PULSE_MS k1 of
               Inl e \<Rightarrow> Inl e
             | Inr (pulse_duration, k2) \<Rightarrow>
                 if pulse_duration < 0 then Inr (None, k2)
                 else if pulse_duration \<ge> interval then Inr (None, k2)
                 else if \<not> malloc_ok then Inr (None, k2)
                 else
                   (case select_mode_v1 k2 of
                      Inl e \<Rightarrow> Inl e
                    | Inr (m, k3) \<Rightarrow>
                        Inr (Some \<lparr>gpio_v1 = gpio_no, interval_ms_v1 = interval,
                                   pulse_duration_ms_v1 = pulse_duration, mode_v1 = m,
                                   label_v1 = (if output_number = 1 then ''Sa'' @ [CHR 0xC3, CHR 0xAD] @ ''da 1'' else ''Sa'' @ [CHR 0xC3, CHR 0xAD] @ ''da 2'')\<rparr>,
                             k3))))"

definition pulse_task_interval_v1 :: "32 word \<Rightarrow> pulse_config_v1 \<Rightarrow> fault + int" where
  "pulse_task_interval_v1 esp_random config =
     (if mode_v1 config = MODE_RANDOM \<and> (word_of_int (interval_ms_v1 config) :: 32 word) = 0
      then Inl DivisionByZero
      else
        let interval = sint (if mode_v1 config = MODE_RANDOM
                             then (esp_random mod word_of_int (interval_ms_v1 config)) + 1
                             else (word_of_int (interval_ms_v1 config) :: 32 word))
        in Inr (if interval \<le> pulse_duration_ms_v1 config then pulse_duration_ms_v1 config + 1
                else interval))"

section \<open>Example configurations\<close>

definition zero_config :: pulse_config_t where
  \<comment> \<open>A slot of the static array \<open>active_configs\<close> before anything is stored: all bytes zero
      (\<open>MODE_DEFINED\<close> and \<open>STATE_RUNNING\<close> are the enumerators with value 0).\<close>
  "zero_config =
     \<lparr>gpio = 0, interval_ms = 0, pulse_duration_ms = 0, mode = MODE_DEFINED, label = [],
      max_pulses = 0, pps = 0, state = STATE_RUNNING, pulse_count = 0\<rparr>"

definition channel_1s :: pulse_config_t where
  \<comment> \<open>The slot after \<open>configure_output(1, GPIO_OUT_1)\<close> with the entries 1000 ms, 100 ms,
      fixed mode, no limit.\<close>
  "channel_1s =
     \<lparr>gpio = 4, interval_ms = 1000, pulse_duration_ms = 100, mode = MODE_DEFINED,
      label = ''OUT1'', max_pulses = 0, pps = 1, state = STATE_STOPPED, pulse_count = 0\<rparr>"


definition limited_channel :: "int \<Rightarrow> pulse_config_t" where
  \<comment> \<open>The same channel with a pulse limit.\<close>
  "limited_channel n = channel_1s\<lparr>max_pulses := n\<rparr>"

definition short_interval_channel :: pulse_config_t where
  \<comment> \<open>The slot after the entries 2 ms, 10 ms, random mode, limit 2.\<close>
  "short_interval_channel =
     \<lparr>gpio = 4, interval_ms = 2, pulse_duration_ms = 10, mode = MODE_RANDOM,
      label = ''OUT1'', max_pulses = 2, pps = 500, state = STATE_STOPPED, pulse_count = 0\<rparr>"

definition paused_polls_from :: "32 word \<Rightarrow> nat \<Rightarrow> poll list" where
  \<comment> \<open>\<open>n\<close> polls 100 ms apart, as the paused branch of the loop makes them, with no new
      pause or resume request.\<close>
  "paused_polls_from t n =
     map (\<lambda>i. \<lparr>sys_running = True, ext_state = None, now = t + 100 * of_nat i\<rparr>) [0 ..< n]"

definition two_channels :: world where
  \<comment> \<open>A session with both outputs: output 1 limited to one pulse and not yet started,
      output 2 unlimited and already running.\<close>
  "two_channels =
     \<lparr>active_configs =
        [channel_1s\<lparr>max_pulses := 1\<rparr>,
         channel_1s\<lparr>gpio := 5, label := ''OUT2'', state := STATE_RUNNING\<rparr>],
      active_outputs = 2, system_running = True, pause_requested = False\<rparr>"

section \<open>Facts about the serial input functions\<close>

declare read_loop.simps [simp del]

lemma digit_not_ctl:
  "is_digit c \<Longrightarrow> c \<noteq> CHR 0x0D \<and> c \<noteq> CHR 0x0A \<and> c \<noteq> CHR 0x08 \<and> c \<noteq> CHR 0x7F \<and> c \<noteq> CHR 0x00"
  by (auto simp: is_digit_def)

lemma read_loop_digit:
  "index < 11 \<Longrightarrow> is_digit c \<Longrightarrow>
   read_loop input index (c # ks) = read_loop (input[index := c]) (index + 1) ks"
  using digit_not_ctl [of c] by (subst read_loop.simps) simp

lemma read_loop_enter:
  "index < 11 \<Longrightarrow> 0 < index \<Longrightarrow> read_loop input index (CHR 0x0D # ks) = Inr ((input, index), ks)"
  by (subst read_loop.simps) simp

lemma read_loop_digits:
  "length pre + length ds \<le> 10 \<Longrightarrow> pre @ ds \<noteq> [] \<Longrightarrow> \<forall>c\<in>set ds. is_digit c \<Longrightarrow>
   read_loop (pre @ replicate (12 - length pre) (CHR 0x00)) (length pre) (ds @ CHR 0x0D # rest) =
   Inr ((pre @ ds @ replicate (12 - length pre - length ds) (CHR 0x00), length pre + length ds), rest)"
proof (induction ds arbitrary: pre)
  case Nil
  then show ?case by (simp add: read_loop_enter)
next
  case (Cons c ds)
  have upd: "(pre @ replicate (12 - length pre) (CHR 0x00))[length pre := c] =
        (pre @ [c]) @ replicate (12 - length (pre @ [c])) (CHR 0x00)"
    using Cons.prems(1) by (cases "12 - length pre") (auto simp: list_update_append)
  have "read_loop (pre @ replicate (12 - length pre) (CHR 0x00)) (length pre) ((c # ds) @ CHR 0x0D # rest)
      = read_loop ((pre @ [c]) @ replicate (12 - length (pre @ [c])) (CHR 0x00)) (length (pre @ [c])) (ds @ CHR 0x0D # rest)"
    using Cons.prems by (simp add: read_loop_digit upd del: append_assoc)
  also have "\<dots> = Inr (((pre @ [c]) @ ds @ replicate (12 - length (pre @ [c]) - length ds) (CHR 0x00),
                      length (pre @ [c]) + length ds), rest)"
    using Cons.prems by (intro Cons.IH) auto
  finally show ?case by simp
qed

lemma atoi_padded: "\<forall>c\<in>set ds. is_digit c \<Longrightarrow> atoi (ds @ replicate k (CHR 0x00)) = atoi ds"
proof -
  assume a: "\<forall>c\<in>set ds. is_digit c"
  have n: "\<not> is_digit (CHR 0x00)" by (simp add: is_digit_def)
  have "takeWhile is_digit (replicate k (CHR 0x00)) = []"
    using n by (cases k) auto
  then have t1: "takeWhile is_digit (ds @ replicate k (CHR 0x00)) = ds"
    using a by (simp add: takeWhile_append2)
  have t2: "takeWhile is_digit ds = ds" using a by simp
  show ?thesis unfolding atoi_def t1 t2 ..
qed

lemma read_int_digits:
  assumes "ds \<noteq> []" "length ds \<le> 10" "\<forall>c\<in>set ds. is_digit c"
  shows "read_int_from_uart lo hi (ds @ CHR 0x0D # rest) =
         Inr (if atoi ds < lo \<or> atoi ds > hi then - 1 else atoi ds, rest)"
proof -
  have "read_loop (replicate 12 (CHR 0x00)) 0 (ds @ CHR 0x0D # rest) =
        Inr ((ds @ replicate (12 - length ds) (CHR 0x00), length ds), rest)"
    using read_loop_digits [of "[]" ds rest] assms by simp
  then show ?thesis
    using assms by (simp add: read_int_from_uart_def atoi_padded Let_def)
qed

lemma read_int_range:
  "read_int_from_uart lo hi keys = Inr (v, rest) \<Longrightarrow> v = - 1 \<or> (lo \<le> v \<and> v \<le> hi)"
  by (auto simp: read_int_from_uart_def Let_def split: sum.splits prod.splits if_splits)


lemma digit_val_nonneg: "is_digit c \<Longrightarrow> 0 \<le> digit_val c"
  by (simp add: is_digit_def digit_val_def)

lemma foldl_digits_nonneg:
  "\<forall>c\<in>set xs. is_digit c \<Longrightarrow> 0 \<le> a \<Longrightarrow> 0 \<le> foldl (\<lambda>acc c. acc * 10 + digit_val c) a xs"
proof (induction xs arbitrary: a)
  case Nil
  then show ?case by simp
next
  case (Cons x xs)
  have "0 \<le> a * 10 + digit_val x"
    using Cons.prems digit_val_nonneg [of x] by simp
  with Cons show ?case by simp
qed

lemma atoi_nonneg: "0 \<le> atoi s"
proof -
  have "\<forall>c\<in>set (takeWhile is_digit s). is_digit c"
    by (auto dest: set_takeWhileD)
  from foldl_digits_nonneg [OF this, of 0] show ?thesis
    by (simp add: atoi_def INT_MAX_def)
qed

lemma c_div_pos: "0 < b \<Longrightarrow> c_div 1000 b = Inr (1000 div b)"
  by (simp add: c_div_def)

lemma ask_pps_Nil: "ask_pps_config [] = Inl NoMoreInput"
  by (simp add: ask_pps_config_def uart_read_char_def)

lemma ask_pps_P:
  "k = CHR ''P'' \<or> k = CHR ''p'' \<Longrightarrow>
   ask_pps_config (k # ks) =
     (case read_int_from_uart MIN_PPS MAX_PPS ks of
        Inl e \<Rightarrow> Inl e
      | Inr (p, ks') \<Rightarrow>
          if p < 0 then Inr (- 1, ks')
          else (case c_div 1000 p of Inl e \<Rightarrow> Inl e | Inr i \<Rightarrow> Inr (i, ks')))"
  by (simp add: ask_pps_config_def uart_read_char_def)

lemma ask_pps_I:
  "k \<noteq> CHR ''P'' \<Longrightarrow> k \<noteq> CHR ''p'' \<Longrightarrow>
   ask_pps_config (k # ks) = read_int_from_uart MIN_INTERVAL_MS MAX_INTERVAL_MS ks"
  by (simp add: ask_pps_config_def uart_read_char_def)

lemma pps_quotient_range:
  fixes p :: int
  assumes "1 \<le> p" "p \<le> 1000"
  shows "1 \<le> 1000 div p \<and> 1000 div p \<le> 1000"
proof -
  have "1000 div p \<le> 1000 div 1" using assms by (intro zdiv_mono2) auto
  moreover have "1000 div 1000 \<le> 1000 div p" using assms by (intro zdiv_mono2) auto
  ultimately show ?thesis by simp
qed

lemma ask_pps_range:
  assumes a: "ask_pps_config keys = Inr (v, rest)"
  shows "v = - 1 \<or> (1 \<le> v \<and> v \<le> 3600000)"
proof (cases keys)
  case Nil
  with a show ?thesis by (simp add: ask_pps_Nil)
next
  case (Cons k ks)
  show ?thesis
  proof (cases "k = CHR ''P'' \<or> k = CHR ''p''")
    case True
    from a Cons True obtain p ks' where
      r: "read_int_from_uart MIN_PPS MAX_PPS ks = Inr (p, ks')"
      by (auto simp: ask_pps_P split: sum.splits)
    from read_int_range [OF r] have p: "p = - 1 \<or> (1 \<le> p \<and> p \<le> 1000)"
      by (simp add: MIN_PPS_def MAX_PPS_def)
    show ?thesis
    proof (cases "p < 0")
      case True
      with a Cons \<open>k = CHR ''P'' \<or> k = CHR ''p''\<close> r show ?thesis
        by (simp add: ask_pps_P)
    next
      case False
      with p have pr: "1 \<le> p" "p \<le> 1000" by auto
      then have "c_div 1000 p = Inr (1000 div p)" by (simp add: c_div_pos)
      with a Cons \<open>k = CHR ''P'' \<or> k = CHR ''p''\<close> r False have "v = 1000 div p"
        by (simp add: ask_pps_P)
      with pps_quotient_range [OF pr] show ?thesis by simp
    qed
  next
    case False
    with a Cons have "read_int_from_uart MIN_INTERVAL_MS MAX_INTERVAL_MS ks = Inr (v, rest)"
      by (simp add: ask_pps_I)
    from read_int_range [OF this] show ?thesis
      by (simp add: MIN_INTERVAL_MS_def MAX_PPS_def MAX_INTERVAL_MS_def)
  qed
qed

lemma read_int_no_div0: "read_int_from_uart lo hi keys \<noteq> Inl DivisionByZero"
proof -
  have "read_loop input index keys \<noteq> Inl DivisionByZero" for input index
  proof (induction input index keys rule: read_loop.induct)
    case (1 input index keys)
    then show ?case
      by (subst read_loop.simps) (auto split: list.splits)
  qed
  then show ?thesis
    by (auto simp: read_int_from_uart_def Let_def split: sum.splits prod.splits)
qed

lemma ask_pps_no_div0: "ask_pps_config keys \<noteq> Inl DivisionByZero"
proof (cases keys)
  case Nil
  then show ?thesis by (simp add: ask_pps_Nil)
next
  case (Cons k ks)
  show ?thesis
  proof (cases "k = CHR ''P'' \<or> k = CHR ''p''")
    case True
    show ?thesis
    proof (cases "read_int_from_uart MIN_PPS MAX_PPS ks")
      case (Inl e)
      with read_int_no_div0 [of MIN_PPS MAX_PPS ks] have "e \<noteq> DivisionByZero" by auto
      with Inl Cons True show ?thesis by (simp add: ask_pps_P)
    next
      case (Inr r)
      obtain p ks' where r: "r = (p, ks')" by (cases r)
      from read_int_range [of MIN_PPS MAX_PPS ks p ks'] Inr r
      have p: "p = - 1 \<or> (1 \<le> p \<and> p \<le> 1000)" by (simp add: MIN_PPS_def MAX_PPS_def)
      then have "p < 0 \<or> c_div 1000 p = Inr (1000 div p)" by (auto simp: c_div_pos)
      with Inr r Cons True show ?thesis by (auto simp: ask_pps_P)
    qed
  next
    case False
    with Cons read_int_no_div0 show ?thesis by (simp add: ask_pps_I)
  qed
qed


lemma select_mode_no_div0: "select_mode keys \<noteq> Inl DivisionByZero"
  by (cases keys) (simp_all add: select_mode_def uart_read_char_def)

lemma ask_pulse_limit_no_div0: "ask_pulse_limit keys \<noteq> Inl DivisionByZero"
proof (cases keys)
  case Nil
  then show ?thesis by (simp add: ask_pulse_limit_def uart_read_char_def)
next
  case (Cons k ks)
  with read_int_no_div0 [of 1 1000000 ks] show ?thesis
    by (simp add: ask_pulse_limit_def uart_read_char_def)
qed

lemma configure_output_fault:
  assumes "configure_output n g slot keys = Inl e"
  shows "e \<noteq> DivisionByZero"
proof (cases "ask_pps_config keys")
  case (Inl e1)
  with assms have "e = e1" by (simp add: configure_output_def Let_def)
  with Inl ask_pps_no_div0 [of keys] show ?thesis by auto
next
  case (Inr r1)
  obtain iv k1 where r1: "r1 = (iv, k1)" by (cases r1)
  from ask_pps_range [of keys iv k1] Inr r1 have iv: "iv = - 1 \<or> (1 \<le> iv \<and> iv \<le> 3600000)" by simp
  show ?thesis
  proof (cases "iv < 0")
    case True
    with assms Inr r1 show ?thesis by (simp add: configure_output_def Let_def)
  next
    case False
    with iv have ivp: "0 < iv" by auto
    show ?thesis
    proof (cases "read_int_from_uart MIN_PULSE_MS MAX_PULSE_MS k1")
      case (Inl e2)
      with assms Inr r1 False have "e = e2" by (simp add: configure_output_def Let_def)
      with Inl read_int_no_div0 [of MIN_PULSE_MS MAX_PULSE_MS k1] show ?thesis by auto
    next
      case r2: (Inr r2)
      obtain pd k2 where p2: "r2 = (pd, k2)" by (cases r2)
      show ?thesis
      proof (cases "pd < 0")
        case True
        with assms Inr r1 \<open>\<not> iv < 0\<close> r2 p2 show ?thesis by (simp add: configure_output_def Let_def)
      next
        case pdf: False
        show ?thesis
        proof (cases "select_mode k2")
          case (Inl e3)
          with assms Inr r1 \<open>\<not> iv < 0\<close> r2 p2 pdf have "e = e3"
            by (simp add: configure_output_def Let_def)
          with Inl select_mode_no_div0 [of k2] show ?thesis by auto
        next
          case r3: (Inr r3)
          obtain m k3 where p3: "r3 = (m, k3)" by (cases r3)
          show ?thesis
          proof (cases "ask_pulse_limit k3")
            case (Inl e4)
            with assms Inr r1 \<open>\<not> iv < 0\<close> r2 p2 pdf r3 p3 have "e = e4"
              by (simp add: configure_output_def Let_def)
            with Inl ask_pulse_limit_no_div0 [of k3] show ?thesis by auto
          next
            case r4: (Inr r4)
            obtain lim k4 where p4: "r4 = (lim, k4)" by (cases r4)
            from assms Inr r1 \<open>\<not> iv < 0\<close> r2 p2 pdf r3 p3 r4 p4 c_div_pos [OF ivp]
            show ?thesis by (simp add: configure_output_def Let_def)
          qed
        qed
      qed
    qed
  qed
qed

lemma configure_output_accept:
  assumes "configure_output n g slot keys = Inr ((True, c), rest)"
  shows "1 \<le> interval_ms c \<and> interval_ms c \<le> 3600000 \<and> pps c = 1000 div interval_ms c
         \<and> 1 \<le> pulse_duration_ms c \<and> pulse_duration_ms c \<le> 10000"
proof -
  from assms obtain iv k1 where a1: "ask_pps_config keys = Inr (iv, k1)"
    by (cases "ask_pps_config keys") (auto simp: configure_output_def Let_def)
  from ask_pps_range [OF a1] have iv: "iv = - 1 \<or> (1 \<le> iv \<and> iv \<le> 3600000)" .
  from assms a1 have nneg: "\<not> iv < 0"
    by (auto simp: configure_output_def Let_def)
  with iv have ivr: "1 \<le> iv" "iv \<le> 3600000" by auto
  from assms a1 nneg obtain pd k2 where a2: "read_int_from_uart MIN_PULSE_MS MAX_PULSE_MS k1 = Inr (pd, k2)"
    by (cases "read_int_from_uart MIN_PULSE_MS MAX_PULSE_MS k1") (auto simp: configure_output_def Let_def)
  from read_int_range [OF a2] have pd: "pd = - 1 \<or> (1 \<le> pd \<and> pd \<le> 10000)"
    by (simp add: MIN_PULSE_MS_def MAX_PULSE_MS_def)
  from assms a1 nneg a2 have pnneg: "\<not> pd < 0"
    by (auto simp: configure_output_def Let_def)
  with pd have pdr: "1 \<le> pd" "pd \<le> 10000" by auto
  have cd: "c_div 1000 iv = Inr (1000 div iv)" using ivr by (simp add: c_div_pos)
  from assms a1 nneg a2 pnneg cd
  have "interval_ms c = iv \<and> pps c = 1000 div iv \<and> pulse_duration_ms c = pd"
    by (auto simp: configure_output_def Let_def split: sum.splits prod.splits)
  with ivr pdr show ?thesis by simp
qed

lemma truncating_quotient:
  fixes p :: int
  assumes "1 \<le> p"
  shows "1000 div p * p \<le> 1000 \<and> 1000 < (1000 div p + 1) * p"
proof -
  have e: "1000 div p * p = 1000 - 1000 mod p" by (simp add: minus_mod_eq_div_mult)
  have m: "0 \<le> 1000 mod p" "1000 mod p < p" using assms by simp_all
  have "(1000 div p + 1) * p = 1000 div p * p + p" by (simp add: distrib_right)
  then have "(1000 div p + 1) * p = 1000 - 1000 mod p + p" by (simp only: e)
  with e m show ?thesis by simp
qed

lemma ask_pps_P_digits:
  assumes "ds \<noteq> []" "length ds \<le> 10" "\<forall>c\<in>set ds. is_digit c"
    and "k = CHR ''P'' \<or> k = CHR ''p''"
  shows "ask_pps_config (k # ds @ CHR 0x0D # rest) =
         Inr (if 1 \<le> atoi ds \<and> atoi ds \<le> 1000 then 1000 div atoi ds else - 1, rest)"
proof (cases "1 \<le> atoi ds \<and> atoi ds \<le> 1000")
  case True
  then have "c_div 1000 (atoi ds) = Inr (1000 div atoi ds)" by (simp add: c_div_pos)
  with True assms show ?thesis
    by (simp add: ask_pps_P read_int_digits MIN_PPS_def MAX_PPS_def)
next
  case False
  with assms show ?thesis
    by (auto simp: ask_pps_P read_int_digits MIN_PPS_def MAX_PPS_def)
qed

lemma ask_pps_I_digits:
  assumes "ds \<noteq> []" "length ds \<le> 10" "\<forall>c\<in>set ds. is_digit c"
    and "k \<noteq> CHR ''P''" "k \<noteq> CHR ''p''"
  shows "ask_pps_config (k # ds @ CHR 0x0D # rest) =
         Inr (if 1 \<le> atoi ds \<and> atoi ds \<le> 3600000 then atoi ds else - 1, rest)"
  using assms
  by (auto simp: ask_pps_I read_int_digits MIN_INTERVAL_MS_def MAX_PPS_def MAX_INTERVAL_MS_def)

lemma configure_output_cong:
  "ask_pps_config keys = ask_pps_config keys' \<Longrightarrow>
   configure_output n g slot keys = configure_output n g slot keys'"
  by (simp add: configure_output_def)

lemma configure_output_stores:
  assumes "ask_pps_config keys = Inr (iv, k1)" "1 \<le> iv"
    and "read_int_from_uart MIN_PULSE_MS MAX_PULSE_MS k1 = Inr (pd, k2)" "0 \<le> pd"
    and "select_mode k2 = Inr (m, k3)" "ask_pulse_limit k3 = Inr (lim, k4)"
  shows "configure_output n g slot keys =
           Inr ((True,
                 slot\<lparr>gpio := g, label := (if n = 1 then ''OUT1'' else ''OUT2''),
                      interval_ms := iv, pulse_duration_ms := pd, mode := m, max_pulses := lim,
                      pps := 1000 div iv, state := STATE_STOPPED, pulse_count := 0\<rparr>),
                k4)"
proof -
  have "c_div 1000 iv = Inr (1000 div iv)" using assms(2) by (simp add: c_div_pos)
  with assms show ?thesis by (simp add: configure_output_def Let_def)
qed

lemma configure_output_interval:
  assumes "configure_output n g slot keys = Inr ((True, c), rest)"
    and "ask_pps_config keys = Inr (iv, k1)"
  shows "interval_ms c = iv \<and> 0 \<le> iv"
proof -
  from assms have nneg: "\<not> iv < 0"
    by (auto simp: configure_output_def Let_def)
  from assms nneg have "interval_ms c = iv"
    by (auto simp: configure_output_def Let_def split: sum.splits prod.splits if_splits)
  with nneg show ?thesis by simp
qed

section \<open>Facts about the scheduler loop\<close>

lemma emit_None [simp]: "emit evs None = None"
  by (simp add: emit_def)

lemma emit_Some [simp]: "emit evs (Some (c, l, es)) = Some (c, l, evs @ es)"
  by (simp add: emit_def)

lemma emit_emit: "emit a (emit b r) = emit (a @ b) r"
  by (cases r) (auto simp: emit_def)


lemma ext_write_fields [simp]:
  "gpio (ext_write p c) = gpio c" "max_pulses (ext_write p c) = max_pulses c"
  "pulse_count (ext_write p c) = pulse_count c" "interval_ms (ext_write p c) = interval_ms c"
  "pulse_duration_ms (ext_write p c) = pulse_duration_ms c"
  by (simp_all add: ext_write_def split: option.splits)

lemma falling_edges_append [simp]:
  "falling_edges g (xs @ ys) = falling_edges g xs + falling_edges g ys"
  by (simp add: falling_edges_def)







lemma paused_poll:
  assumes "state c = STATE_PAUSED" "sys_running p"
    and "ext_state p \<noteq> Some STATE_RUNNING" "ext_state p \<noteq> Some STATE_STOPPED"
    and "max_pulses c = 0 \<or> pulse_count c < max_pulses c"
  shows "pulse_loop (p # ps) c l = emit [TaskDelay 100] (pulse_loop ps c l)"
proof -
  have "ext_state p = None \<or> ext_state p = Some STATE_PAUSED"
    using assms(3,4) by (cases "ext_state p") (auto intro: generator_state_t.exhaust)
  then have e: "ext_write p c = c"
    using assms(1) by (auto simp: ext_write_def)
  have "loop_cond p c" using assms(2,5) by (simp add: loop_cond_def)
  moreover have "loop_body p c l = (c, l, [TaskDelay 100])"
    using assms(1) by (simp add: loop_body_def)
  ultimately show ?thesis using e by simp
qed

lemma paused_polls:
  assumes "state c = STATE_PAUSED"
    and "\<forall>p\<in>set ps. sys_running p \<and> ext_state p \<noteq> Some STATE_RUNNING \<and> ext_state p \<noteq> Some STATE_STOPPED"
    and "max_pulses c = 0 \<or> pulse_count c < max_pulses c"
  shows "pulse_loop (ps @ rest) c l = emit (replicate (length ps) (TaskDelay 100)) (pulse_loop rest c l)"
  using assms(2)
proof (induction ps)
  case Nil
  show ?case by (cases "pulse_loop rest c l") (auto simp: emit_def)
next
  case (Cons p ps)
  from Cons.prems have p: "sys_running p" "ext_state p \<noteq> Some STATE_RUNNING"
    "ext_state p \<noteq> Some STATE_STOPPED" by simp_all
  from Cons.prems have rest: "\<forall>p\<in>set ps. sys_running p \<and> ext_state p \<noteq> Some STATE_RUNNING \<and> ext_state p \<noteq> Some STATE_STOPPED"
    by simp
  have "pulse_loop (p # (ps @ rest)) c l = emit [TaskDelay 100] (pulse_loop (ps @ rest) c l)"
    using assms(1) p assms(3) by (rule paused_poll)
  also have "\<dots> = emit [TaskDelay 100] (emit (replicate (length ps) (TaskDelay 100)) (pulse_loop rest c l))"
    using Cons.IH [OF rest] by (simp only:)
  also have "\<dots> = emit (replicate (length (p # ps)) (TaskDelay 100)) (pulse_loop rest c l)"
    by (simp add: emit_emit)
  finally show ?case by (simp only: append_Cons)
qed

lemma resume_poll:
  assumes "sys_running r" "ext_state r = Some STATE_RUNNING"
    and "max_pulses c = 0 \<or> pulse_count c < max_pulses c"
  shows "pulse_loop (r # rest) c l =
           (if word_of_int (interval_ms c) \<le> now r - l
            then emit (generate_pulse (gpio c) (pulse_duration_ms c) @ [TaskDelay 1])
                   (pulse_loop rest (c\<lparr>state := STATE_RUNNING, pulse_count := pulse_count c + 1\<rparr>) (now r))
            else emit [TaskDelay 1] (pulse_loop rest (c\<lparr>state := STATE_RUNNING\<rparr>) l))"
proof -
  have e: "ext_write r c = c\<lparr>state := STATE_RUNNING\<rparr>"
    using assms(2) by (simp add: ext_write_def)
  have "loop_cond r (c\<lparr>state := STATE_RUNNING\<rparr>)"
    using assms(1,3) by (simp add: loop_cond_def)
  then show ?thesis
    using e by (simp add: loop_body_def Let_def)
qed

lemma first_poll:
  assumes "sys_running p" "ext_state p = None" "max_pulses c = 0 \<or> 0 < max_pulses c"
  shows "pulse_loop (p # rest) (c\<lparr>state := STATE_RUNNING, pulse_count := 0\<rparr>) 0 =
     (if word_of_int (interval_ms c) \<le> now p
      then emit (generate_pulse (gpio c) (pulse_duration_ms c) @ [TaskDelay 1])
             (pulse_loop rest (c\<lparr>state := STATE_RUNNING, pulse_count := 1\<rparr>) (now p))
      else emit [TaskDelay 1] (pulse_loop rest (c\<lparr>state := STATE_RUNNING, pulse_count := 0\<rparr>) 0))"
proof -
  let ?c1 = "c\<lparr>state := STATE_RUNNING, pulse_count := 0\<rparr>"
  have e: "ext_write p ?c1 = ?c1" using assms(2) by (simp add: ext_write_def)
  have "loop_cond p ?c1" using assms(1,3) by (simp add: loop_cond_def)
  then show ?thesis using e by (simp add: loop_body_def Let_def)
qed

lemma loop_body_ignores_mode:
  "loop_body p (c\<lparr>mode := m\<rparr>) l =
     (case loop_body p c l of (c', l', evs) \<Rightarrow> (c'\<lparr>mode := m\<rparr>, l', evs))"
  by (simp add: loop_body_def Let_def)

lemma pulse_loop_ignores_mode:
  "pulse_loop ps (c\<lparr>mode := m\<rparr>) l =
     map_option (\<lambda>(c', l', evs). (c'\<lparr>mode := m\<rparr>, l', evs)) (pulse_loop ps c l)"
proof (induction ps arbitrary: c l)
  case Nil
  show ?case by simp
next
  case (Cons p ps)
  have w: "ext_write p (c\<lparr>mode := m\<rparr>) = (ext_write p c)\<lparr>mode := m\<rparr>"
    by (simp add: ext_write_def split: option.splits)
  have lc: "loop_cond p ((ext_write p c)\<lparr>mode := m\<rparr>) = loop_cond p (ext_write p c)"
    by (simp add: loop_cond_def)
  obtain c2 l2 ev2 where b: "loop_body p (ext_write p c) l = (c2, l2, ev2)"
    by (cases "loop_body p (ext_write p c) l") auto
  then have b': "loop_body p ((ext_write p c)\<lparr>mode := m\<rparr>) l = (c2\<lparr>mode := m\<rparr>, l2, ev2)"
    by (simp add: loop_body_ignores_mode)
  show ?case
  proof (cases "loop_cond p (ext_write p c)")
    case True
    then show ?thesis
      using w lc b b' Cons.IH [of c2 l2]
      by (cases "pulse_loop ps c2 l2") (auto simp: emit_def)
  next
    case False
    then show ?thesis using w lc by simp
  qed
qed

section \<open>Facts about the first variant\<close>

declare read_loop_v1.simps [simp del]

lemma read_int_range_v1:
  "read_int_from_uart_v1 lo hi keys = Inr (v, rest) \<Longrightarrow> v = - 1 \<or> (lo \<le> v \<and> v \<le> hi)"
  by (auto simp: read_int_from_uart_v1_def Let_def split: sum.splits prod.splits if_splits)

lemma configure_single_output_valid:
  assumes "configure_single_output n g m keys = Inr (Some c, rest)"
  shows "200 \<le> interval_ms_v1 c \<and> interval_ms_v1 c \<le> 3600000
       \<and> 100 \<le> pulse_duration_ms_v1 c \<and> pulse_duration_ms_v1 c \<le> 10000
       \<and> pulse_duration_ms_v1 c < interval_ms_v1 c"
proof -
  from assms obtain iv k1 where a1: "read_int_from_uart_v1 MIN_INTERVAL_MS_v1 MAX_INTERVAL_MS_v1 keys = Inr (iv, k1)"
    by (cases "read_int_from_uart_v1 MIN_INTERVAL_MS_v1 MAX_INTERVAL_MS_v1 keys")
       (auto simp: configure_single_output_def)
  from assms a1 have n1: "\<not> iv < 0" by (auto simp: configure_single_output_def)
  from read_int_range_v1 [OF a1] n1 have ivr: "200 \<le> iv" "iv \<le> 3600000"
    by (auto simp: MIN_INTERVAL_MS_v1_def MAX_INTERVAL_MS_v1_def)
  from assms a1 n1 obtain pd k2 where a2: "read_int_from_uart_v1 MIN_PULSE_MS_v1 MAX_PULSE_MS k1 = Inr (pd, k2)"
    by (cases "read_int_from_uart_v1 MIN_PULSE_MS_v1 MAX_PULSE_MS k1")
       (auto simp: configure_single_output_def)
  from assms a1 n1 a2 have n2: "\<not> pd < 0" "\<not> pd \<ge> iv"
    by (auto simp: configure_single_output_def split: if_splits)
  from read_int_range_v1 [OF a2] n2 have pdr: "100 \<le> pd" "pd \<le> 10000"
    by (auto simp: MIN_PULSE_MS_v1_def MAX_PULSE_MS_def)
  from assms a1 n1 a2 n2 have "interval_ms_v1 c = iv \<and> pulse_duration_ms_v1 c = pd"
    by (auto simp: configure_single_output_def split: if_splits sum.splits prod.splits)
  with ivr pdr n2 show ?thesis by simp
qed

lemma pulse_task_interval_v1_bounds:
  assumes "0 < interval_ms_v1 c" "interval_ms_v1 c < 2 ^ 31"
    and "pulse_duration_ms_v1 c < interval_ms_v1 c"
  shows "\<exists>i. pulse_task_interval_v1 r c = Inr i
           \<and> pulse_duration_ms_v1 c + 1 \<le> i \<and> i \<le> interval_ms_v1 c
           \<and> (mode_v1 c = MODE_DEFINED \<longrightarrow> i = interval_ms_v1 c)"
proof -
  let ?w = "word_of_int (interval_ms_v1 c) :: 32 word"
  have uw: "uint ?w = interval_ms_v1 c"
    using assms(1,2) by (simp add: uint_word_of_int)
  then have nz: "?w \<noteq> 0" using assms(1) by auto
  have sw: "sint ?w = interval_ms_v1 c"
    using assms(1,2) by (simp add: sint_uint uw signed_take_bit_int_eq_self)
  let ?d = "r mod ?w + 1"
  have um: "uint (r mod ?w) < interval_ms_v1 c" "0 \<le> uint (r mod ?w)"
    using assms(1) uw by (simp_all add: uint_mod)
  have ud: "uint ?d = uint (r mod ?w) + 1"
    using um assms(2) by (simp add: uint_plus_if_size word_size)
  have sd: "sint ?d = uint (r mod ?w) + 1"
    using um assms(2) ud by (simp add: sint_uint signed_take_bit_int_eq_self)
  show ?thesis
  proof (cases "mode_v1 c")
    case MODE_DEFINED
    then show ?thesis using sw assms(3) by (simp add: pulse_task_interval_v1_def Let_def)
  next
    case MODE_RANDOM
    then show ?thesis using sd um nz assms(3) by (simp add: pulse_task_interval_v1_def Let_def)
  qed
qed

section \<open>Claims about the configuration dialogue\<close>

text \<open>
  Claim C7.  For a PPS entry in \<open>[1, 1000]\<close> (typed as digits and Enter after \<open>P\<close> or \<open>p\<close>),
  \<open>ask_pps_config\<close> returns \<open>1000 / pps\<close>, and the quotient is the truncated one (the
  largest \<open>q\<close> with \<open>q * pps \<le> 1000\<close>).  \<open>configure_output\<close> stores that quotient in
  \<open>interval_ms\<close>: when the remaining entries are accepted, the slot it returns is the old
  slot with \<open>interval_ms = 1000 / pps\<close> (and the other fields as entered), and every
  accepted configuration has this \<open>interval_ms\<close>.  The direct style stores the typed
  interval in the same field, and a direct entry of the quotient gives exactly the same
  result as the PPS entry.
\<close>

theorem pps_to_interval:
  assumes "ds \<noteq> []" "length ds \<le> 10" "\<forall>c\<in>set ds. is_digit c"
    and "1 \<le> atoi ds" "atoi ds \<le> 1000"
    and "k = CHR ''P'' \<or> k = CHR ''p''"
  shows "ask_pps_config (k # ds @ CHR 0x0D # rest) = Inr (1000 div atoi ds, rest)
       \<and> 1000 div atoi ds * atoi ds \<le> 1000 \<and> 1000 < (1000 div atoi ds + 1) * atoi ds
       \<and> (\<forall>es k'. es \<noteq> [] \<and> length es \<le> 10 \<and> (\<forall>c\<in>set es. is_digit c)
              \<and> atoi es = 1000 div atoi ds \<and> k' \<noteq> CHR ''P'' \<and> k' \<noteq> CHR ''p'' \<longrightarrow>
            configure_output n g slot (k' # es @ CHR 0x0D # rest) =
            configure_output n g slot (k # ds @ CHR 0x0D # rest))
       \<and> (\<forall>pd k2 m k3 lim k4.
              read_int_from_uart MIN_PULSE_MS MAX_PULSE_MS rest = Inr (pd, k2) \<and> 0 \<le> pd
              \<and> select_mode k2 = Inr (m, k3) \<and> ask_pulse_limit k3 = Inr (lim, k4) \<longrightarrow>
            configure_output n g slot (k # ds @ CHR 0x0D # rest) =
              Inr ((True,
                    slot\<lparr>gpio := g, label := (if n = 1 then ''OUT1'' else ''OUT2''),
                         interval_ms := 1000 div atoi ds, pulse_duration_ms := pd, mode := m,
                         max_pulses := lim, pps := 1000 div (1000 div atoi ds),
                         state := STATE_STOPPED, pulse_count := 0\<rparr>),
                   k4))
       \<and> (\<forall>c rest'. configure_output n g slot (k # ds @ CHR 0x0D # rest) = Inr ((True, c), rest') \<longrightarrow>
              interval_ms c = 1000 div atoi ds)
       \<and> (\<forall>es k' c rest'. es \<noteq> [] \<and> length es \<le> 10 \<and> (\<forall>c\<in>set es. is_digit c)
              \<and> k' \<noteq> CHR ''P'' \<and> k' \<noteq> CHR ''p''
              \<and> configure_output n g slot (k' # es @ CHR 0x0D # rest) = Inr ((True, c), rest') \<longrightarrow>
              interval_ms c = atoi es)"
proof -
  have p: "ask_pps_config (k # ds @ CHR 0x0D # rest) = Inr (1000 div atoi ds, rest)"
    using assms by (simp add: ask_pps_P_digits)
  have q: "1 \<le> 1000 div atoi ds \<and> 1000 div atoi ds \<le> 1000"
    using assms by (intro pps_quotient_range)
  have same: "configure_output n g slot (k' # es @ CHR 0x0D # rest) =
        configure_output n g slot (k # ds @ CHR 0x0D # rest)"
    if "es \<noteq> []" "length es \<le> 10" "\<forall>c\<in>set es. is_digit c" "atoi es = 1000 div atoi ds"
       "k' \<noteq> CHR ''P''" "k' \<noteq> CHR ''p''" for es k'
  proof (rule configure_output_cong)
    show "ask_pps_config (k' # es @ CHR 0x0D # rest) = ask_pps_config (k # ds @ CHR 0x0D # rest)"
      using that q by (simp add: ask_pps_I_digits p)
  qed
  have full: "configure_output n g slot (k # ds @ CHR 0x0D # rest) =
              Inr ((True,
                    slot\<lparr>gpio := g, label := (if n = 1 then ''OUT1'' else ''OUT2''),
                         interval_ms := 1000 div atoi ds, pulse_duration_ms := pd, mode := m,
                         max_pulses := lim, pps := 1000 div (1000 div atoi ds),
                         state := STATE_STOPPED, pulse_count := 0\<rparr>),
                   k4)"
    if "read_int_from_uart MIN_PULSE_MS MAX_PULSE_MS rest = Inr (pd, k2)" "0 \<le> pd"
       "select_mode k2 = Inr (m, k3)" "ask_pulse_limit k3 = Inr (lim, k4)" for pd k2 m k3 lim k4
    using p q that by (intro configure_output_stores) simp_all
  have stored: "interval_ms c = 1000 div atoi ds"
    if "configure_output n g slot (k # ds @ CHR 0x0D # rest) = Inr ((True, c), rest')" for c rest'
    using configure_output_interval [OF that p] by simp
  have direct: "interval_ms c = atoi es"
    if es: "es \<noteq> []" "length es \<le> 10" "\<forall>c\<in>set es. is_digit c"
       "k' \<noteq> CHR ''P''" "k' \<noteq> CHR ''p''"
      and acc: "configure_output n g slot (k' # es @ CHR 0x0D # rest) = Inr ((True, c), rest')"
    for es k' c rest'
  proof -
    let ?iv = "if 1 \<le> atoi es \<and> atoi es \<le> 3600000 then atoi es else - 1"
    have a: "ask_pps_config (k' # es @ CHR 0x0D # rest) = Inr (?iv, rest)"
      using es by (rule ask_pps_I_digits)
    from configure_output_interval [OF acc a] have "interval_ms c = ?iv" "0 \<le> ?iv" by simp_all
    then show ?thesis by (auto split: if_splits)
  qed
  from p truncating_quotient [OF assms(4)] same full stored direct show ?thesis by blast
qed

theorem pps_to_interval_witness:
  "ask_pps_config (CHR ''P'' # ''500'' @ CHR 0x0D # []) = Inr (2, [])
   \<and> ask_pps_config (CHR ''p'' # ''3'' @ CHR 0x0D # []) = Inr (333, [])
   \<and> configure_output 1 GPIO_OUT_1 zero_config (CHR ''I'' # ''2'' @ CHR 0x0D # ''10'' @ CHR 0x0D # ''DN'') =
     configure_output 1 GPIO_OUT_1 zero_config (CHR ''P'' # ''500'' @ CHR 0x0D # ''10'' @ CHR 0x0D # ''DN'')
   \<and> configure_output 1 GPIO_OUT_1 zero_config (CHR ''P'' # ''500'' @ CHR 0x0D # ''10'' @ CHR 0x0D # ''DN'') =
       Inr ((True, \<lparr>gpio = 4, interval_ms = 2, pulse_duration_ms = 10, mode = MODE_DEFINED,
                    label = ''OUT1'', max_pulses = 0, pps = 500, state = STATE_STOPPED,
                    pulse_count = 0\<rparr>), [])
   \<and> configure_output 1 GPIO_OUT_1 zero_config (CHR ''p'' # ''3'' @ CHR 0x0D # ''10'' @ CHR 0x0D # ''DN'') =
       Inr ((True, \<lparr>gpio = 4, interval_ms = 333, pulse_duration_ms = 10, mode = MODE_DEFINED,
                    label = ''OUT1'', max_pulses = 0, pps = 3, state = STATE_STOPPED,
                    pulse_count = 0\<rparr>), [])"
proof -
  have a: "atoi ''500'' = 500" "atoi ''3'' = 3" "atoi ''2'' = 2"
    by (simp_all add: atoi_def is_digit_def digit_val_def INT_MAX_def)
  have d5: "\<forall>c\<in>set ''500''. is_digit c" and d3: "\<forall>c\<in>set ''3''. is_digit c"
    and d2: "\<forall>c\<in>set ''2''. is_digit c"
    by (simp_all add: is_digit_def)
  have n5: "''500'' \<noteq> []" "length ''500'' \<le> 10" "1 \<le> atoi ''500''" "atoi ''500'' \<le> 1000"
    and n3: "''3'' \<noteq> []" "length ''3'' \<le> 10" "1 \<le> atoi ''3''" "atoi ''3'' \<le> 1000"
    by (simp_all add: a)
  have kP: "CHR ''P'' = CHR ''P'' \<or> CHR ''P'' = CHR ''p''"
    and kp: "CHR ''p'' = CHR ''P'' \<or> CHR ''p'' = CHR ''p''" by simp_all
  note t5 = pps_to_interval [OF n5(1,2) d5 n5(3,4) kP]
  note t3 = pps_to_interval [OF n3(1,2) d3 n3(3,4) kp]
  have 1: "ask_pps_config (CHR ''P'' # ''500'' @ CHR 0x0D # []) = Inr (2, [])"
    using t5 [of "[]" 1 GPIO_OUT_1 zero_config, THEN conjunct1] by (simp add: a)
  have 2: "ask_pps_config (CHR ''p'' # ''3'' @ CHR 0x0D # []) = Inr (333, [])"
    using t3 [of "[]" 1 GPIO_OUT_1 zero_config, THEN conjunct1] by (simp add: a)
  have h2: "''2'' \<noteq> [] \<and> length ''2'' \<le> 10 \<and> (\<forall>c\<in>set ''2''. is_digit c)
        \<and> atoi ''2'' = 1000 div atoi ''500'' \<and> CHR ''I'' \<noteq> CHR ''P'' \<and> CHR ''I'' \<noteq> CHR ''p''"
    using d2 by (simp add: a)
  from t5 [of "''10'' @ CHR 0x0D # ''DN''" 1 GPIO_OUT_1 zero_config,
      THEN conjunct2, THEN conjunct2, THEN conjunct2, THEN conjunct1, rule_format, OF h2]
  have 3: "configure_output 1 GPIO_OUT_1 zero_config (CHR ''I'' # ''2'' @ CHR 0x0D # ''10'' @ CHR 0x0D # ''DN'') =
     configure_output 1 GPIO_OUT_1 zero_config (CHR ''P'' # ''500'' @ CHR 0x0D # ''10'' @ CHR 0x0D # ''DN'')" .
  have r: "read_int_from_uart MIN_PULSE_MS MAX_PULSE_MS (''10'' @ CHR 0x0D # ''DN'') = Inr (10, ''DN'')"
    by code_simp
  have sm: "select_mode ''DN'' = Inr (MODE_DEFINED, ''N'')" by code_simp
  have al: "ask_pulse_limit ''N'' = Inr (0, [])" by code_simp
  have hyp: "read_int_from_uart MIN_PULSE_MS MAX_PULSE_MS (''10'' @ CHR 0x0D # ''DN'') = Inr (10, ''DN'')
      \<and> (0::int) \<le> 10 \<and> select_mode ''DN'' = Inr (MODE_DEFINED, ''N'')
      \<and> ask_pulse_limit ''N'' = Inr (0, [])"
    using r sm al by simp
  note f5 = t5 [of "''10'' @ CHR 0x0D # ''DN''" 1 GPIO_OUT_1 zero_config,
      THEN conjunct2, THEN conjunct2, THEN conjunct2, THEN conjunct2, THEN conjunct1,
      rule_format, OF hyp]
  note f3 = t3 [of "''10'' @ CHR 0x0D # ''DN''" 1 GPIO_OUT_1 zero_config,
      THEN conjunct2, THEN conjunct2, THEN conjunct2, THEN conjunct2, THEN conjunct1,
      rule_format, OF hyp]
  have 4: "configure_output 1 GPIO_OUT_1 zero_config (CHR ''P'' # ''500'' @ CHR 0x0D # ''10'' @ CHR 0x0D # ''DN'') =
       Inr ((True, \<lparr>gpio = 4, interval_ms = 2, pulse_duration_ms = 10, mode = MODE_DEFINED,
                    label = ''OUT1'', max_pulses = 0, pps = 500, state = STATE_STOPPED,
                    pulse_count = 0\<rparr>), [])"
    using f5 by (simp add: a zero_config_def GPIO_OUT_1_def)
  have 5: "configure_output 1 GPIO_OUT_1 zero_config (CHR ''p'' # ''3'' @ CHR 0x0D # ''10'' @ CHR 0x0D # ''DN'') =
       Inr ((True, \<lparr>gpio = 4, interval_ms = 333, pulse_duration_ms = 10, mode = MODE_DEFINED,
                    label = ''OUT1'', max_pulses = 0, pps = 3, state = STATE_STOPPED,
                    pulse_count = 0\<rparr>), [])"
    using f3 by (simp add: a zero_config_def GPIO_OUT_1_def)
  from 1 2 3 4 5 show ?thesis by blast
qed

text \<open>
  Claim C10.  No input makes \<open>ask_pps_config\<close> or \<open>configure_output\<close> divide by zero:
  \<open>1000 / pps\<close> is reached only with \<open>pps\<close> in \<open>[1, 1000]\<close>, and \<open>1000 / interval_ms\<close> only
  with \<open>interval_ms \<ge> 1\<close>; in every accepted configuration the guarded division yields
  the stored \<open>pps\<close>.
\<close>

theorem divisions_never_by_zero:
  "ask_pps_config keys \<noteq> Inl DivisionByZero
   \<and> configure_output n g slot keys \<noteq> Inl DivisionByZero
   \<and> (\<forall>c rest. configure_output n g slot keys = Inr ((True, c), rest) \<longrightarrow>
         1 \<le> interval_ms c \<and> c_div 1000 (interval_ms c) = Inr (pps c))"
proof -
  have "configure_output n g slot keys \<noteq> Inl DivisionByZero"
    using configure_output_fault [of n g slot keys DivisionByZero] by blast
  moreover have "1 \<le> interval_ms c \<and> c_div 1000 (interval_ms c) = Inr (pps c)"
    if "configure_output n g slot keys = Inr ((True, c), rest)" for c rest
    using configure_output_accept [OF that] by (simp add: c_div_pos)
  ultimately show ?thesis using ask_pps_no_div0 [of keys] by blast
qed

theorem divisions_never_by_zero_witness:
  "configure_output 1 GPIO_OUT_1 zero_config (CHR ''P'' # ''1000'' @ CHR 0x0D # ''1'' @ CHR 0x0D # ''DN'') =
     Inr ((True, \<lparr>gpio = 4, interval_ms = 1, pulse_duration_ms = 1, mode = MODE_DEFINED,
                  label = ''OUT1'', max_pulses = 0, pps = 1000, state = STATE_STOPPED,
                  pulse_count = 0\<rparr>), [])
   \<and> c_div 1000 1 = Inr 1000"
proof -
  have e: "configure_output 1 GPIO_OUT_1 zero_config (CHR ''P'' # ''1000'' @ CHR 0x0D # ''1'' @ CHR 0x0D # ''DN'') =
     Inr ((True, \<lparr>gpio = 4, interval_ms = 1, pulse_duration_ms = 1, mode = MODE_DEFINED,
                  label = ''OUT1'', max_pulses = 0, pps = 1000, state = STATE_STOPPED,
                  pulse_count = 0\<rparr>), [])"
    by code_simp
  from divisions_never_by_zero
     [of "CHR ''P'' # ''1000'' @ CHR 0x0D # ''1'' @ CHR 0x0D # ''DN''" 1 GPIO_OUT_1 zero_config]
  have "\<forall>c rest. configure_output 1 GPIO_OUT_1 zero_config
            (CHR ''P'' # ''1000'' @ CHR 0x0D # ''1'' @ CHR 0x0D # ''DN'') = Inr ((True, c), rest) \<longrightarrow>
         1 \<le> interval_ms c \<and> c_div 1000 (interval_ms c) = Inr (pps c)"
    by blast
  from this [rule_format, OF e] have "c_div 1000 1 = Inr 1000" by simp
  with e show ?thesis by blast
qed

text \<open>
  Claim C6, as stated, fails: a direct interval entry of 1 ms is accepted, because
  \<open>MIN_INTERVAL_MS\<close> is \<open>1000 / MAX_PPS = 1\<close>.
\<close>

theorem direct_interval_one_accepted:
  "ask_pps_config (CHR ''I'' # ''1'' @ [CHR 0x0D]) = Inr (1, []) \<and> MIN_INTERVAL_MS = 1"
  by code_simp

text \<open>
  Claim C6, amended.  For an entry of one to ten digits closed by Enter, the value is
  accepted exactly when it lies in \<open>[1, 3600000]\<close> (direct interval), \<open>[1, 1000]\<close> (PPS),
  \<open>[1, 10000]\<close> (pulse duration) or \<open>[1, 1000000]\<close> (pulse limit, after \<open>S\<close>); any other
  answer to the limit question gives 0 (unbounded).  A rejected entry yields \<open>-1\<close>, which
  no entry has as its value, and whatever is typed, a result other than \<open>-1\<close> lies within
  the bounds passed to \<open>read_int_from_uart\<close>.
\<close>

theorem input_bounds:
  assumes "ds \<noteq> []" "length ds \<le> 10" "\<forall>c\<in>set ds. is_digit c"
  shows "(k \<noteq> CHR ''P'' \<and> k \<noteq> CHR ''p'' \<longrightarrow>
            ask_pps_config (k # ds @ CHR 0x0D # rest) =
              Inr (if 1 \<le> atoi ds \<and> atoi ds \<le> 3600000 then atoi ds else - 1, rest))
       \<and> (k = CHR ''P'' \<or> k = CHR ''p'' \<longrightarrow>
            ask_pps_config (k # ds @ CHR 0x0D # rest) =
              Inr (if 1 \<le> atoi ds \<and> atoi ds \<le> 1000 then 1000 div atoi ds else - 1, rest))
       \<and> read_int_from_uart MIN_PULSE_MS MAX_PULSE_MS (ds @ CHR 0x0D # rest) =
              Inr (if 1 \<le> atoi ds \<and> atoi ds \<le> 10000 then atoi ds else - 1, rest)
       \<and> (k = CHR ''S'' \<or> k = CHR ''s'' \<longrightarrow>
            ask_pulse_limit (k # ds @ CHR 0x0D # rest) =
              Inr (if 1 \<le> atoi ds \<and> atoi ds \<le> 1000000 then atoi ds else - 1, rest))
       \<and> (k \<noteq> CHR ''S'' \<and> k \<noteq> CHR ''s'' \<longrightarrow> ask_pulse_limit (k # rest) = Inr (0, rest))
       \<and> 0 \<le> atoi ds
       \<and> (\<forall>lo hi keys v rest'. read_int_from_uart lo hi keys = Inr (v, rest') \<longrightarrow>
             v = - 1 \<or> (lo \<le> v \<and> v \<le> hi))"
proof -
  have 1: "k \<noteq> CHR ''P'' \<and> k \<noteq> CHR ''p'' \<longrightarrow>
            ask_pps_config (k # ds @ CHR 0x0D # rest) =
              Inr (if 1 \<le> atoi ds \<and> atoi ds \<le> 3600000 then atoi ds else - 1, rest)"
    using assms by (simp add: ask_pps_I_digits)
  have 2: "k = CHR ''P'' \<or> k = CHR ''p'' \<longrightarrow>
            ask_pps_config (k # ds @ CHR 0x0D # rest) =
              Inr (if 1 \<le> atoi ds \<and> atoi ds \<le> 1000 then 1000 div atoi ds else - 1, rest)"
    using assms ask_pps_P_digits [of ds k rest] by blast
  have 3: "read_int_from_uart MIN_PULSE_MS MAX_PULSE_MS (ds @ CHR 0x0D # rest) =
              Inr (if 1 \<le> atoi ds \<and> atoi ds \<le> 10000 then atoi ds else - 1, rest)"
    using assms by (auto simp: read_int_digits MIN_PULSE_MS_def MAX_PULSE_MS_def)
  have 4: "k = CHR ''S'' \<or> k = CHR ''s'' \<longrightarrow>
            ask_pulse_limit (k # ds @ CHR 0x0D # rest) =
              Inr (if 1 \<le> atoi ds \<and> atoi ds \<le> 1000000 then atoi ds else - 1, rest)"
    using assms by (auto simp: ask_pulse_limit_def uart_read_char_def read_int_digits)
  have 5: "k \<noteq> CHR ''S'' \<and> k \<noteq> CHR ''s'' \<longrightarrow> ask_pulse_limit (k # rest) = Inr (0, rest)"
    by (simp add: ask_pulse_limit_def uart_read_char_def)
  have 6: "\<forall>lo hi keys v rest'. read_int_from_uart lo hi keys = Inr (v, rest') \<longrightarrow>
             v = - 1 \<or> (lo \<le> v \<and> v \<le> hi)"
    using read_int_range by blast
  from 1 2 3 4 5 6 atoi_nonneg [of ds] show ?thesis by blast
qed

theorem input_bounds_witness:
  "ask_pps_config (CHR ''I'' # ''3600000'' @ CHR 0x0D # []) = Inr (3600000, [])
   \<and> ask_pps_config (CHR ''P'' # ''3600000'' @ CHR 0x0D # []) = Inr (- 1, [])
   \<and> read_int_from_uart MIN_PULSE_MS MAX_PULSE_MS (''3600000'' @ CHR 0x0D # []) = Inr (- 1, [])
   \<and> ask_pulse_limit (CHR ''S'' # ''3600000'' @ CHR 0x0D # []) = Inr (- 1, [])
   \<and> ask_pulse_limit (CHR ''N'' # []) = Inr (0, [])"
proof -
  have a: "atoi ''3600000'' = 3600000"
    by (simp add: atoi_def is_digit_def digit_val_def INT_MAX_def)
  have d: "\<forall>c\<in>set ''3600000''. is_digit c"
    by (simp add: is_digit_def)
  have n: "''3600000'' \<noteq> []" "length ''3600000'' \<le> 10" by simp_all
  note t = input_bounds [OF n d]
  have 1: "ask_pps_config (CHR ''I'' # ''3600000'' @ CHR 0x0D # []) = Inr (3600000, [])"
    using t [of "CHR ''I''" "[]", THEN conjunct1] by (simp add: a)
  have 2: "ask_pps_config (CHR ''P'' # ''3600000'' @ CHR 0x0D # []) = Inr (- 1, [])"
    using t [of "CHR ''P''" "[]", THEN conjunct2, THEN conjunct1] by (simp add: a)
  have 3: "read_int_from_uart MIN_PULSE_MS MAX_PULSE_MS (''3600000'' @ CHR 0x0D # []) = Inr (- 1, [])"
    using t [of "CHR ''P''" "[]", THEN conjunct2, THEN conjunct2, THEN conjunct1] by (simp add: a)
  have 4: "ask_pulse_limit (CHR ''S'' # ''3600000'' @ CHR 0x0D # []) = Inr (- 1, [])"
    using t [of "CHR ''S''" "[]", THEN conjunct2, THEN conjunct2, THEN conjunct2, THEN conjunct1]
    by (simp add: a)
  have 5: "ask_pulse_limit (CHR ''N'' # []) = Inr (0, [])"
    using t [of "CHR ''N''" "[]", THEN conjunct2, THEN conjunct2, THEN conjunct2, THEN conjunct2,
        THEN conjunct1]
    by simp
  from 1 2 3 4 5 show ?thesis by blast
qed

text \<open>
  Claim C3 on \<open>configure_output\<close>: the interval 2 ms and the pulse duration 10 ms are both
  in range, and the call succeeds with \<open>pulse_duration_ms \<ge> interval_ms\<close>: there is no
  cross-check.  When the pulse duration is out of range the call returns false and
  leaves the slot half written.
\<close>

theorem configure_output_no_cross_check:
  "configure_output 1 GPIO_OUT_1 zero_config (CHR ''I'' # ''2'' @ CHR 0x0D # ''10'' @ CHR 0x0D # ''DN'') =
     Inr ((True, \<lparr>gpio = 4, interval_ms = 2, pulse_duration_ms = 10, mode = MODE_DEFINED,
                  label = ''OUT1'', max_pulses = 0, pps = 500, state = STATE_STOPPED,
                  pulse_count = 0\<rparr>), [])
   \<and> configure_output 1 GPIO_OUT_1 zero_config (CHR ''I'' # ''2'' @ CHR 0x0D # ''0'' @ CHR 0x0D # ''DN'') =
     Inr ((False, \<lparr>gpio = 4, interval_ms = 2, pulse_duration_ms = - 1, mode = MODE_DEFINED,
                  label = ''OUT1'', max_pulses = 0, pps = 0, state = STATE_RUNNING,
                  pulse_count = 0\<rparr>), ''DN'')"
  by code_simp

section \<open>Claims about the scheduler\<close>



text \<open>
  Claim C1, as stated, fails.  Interval 1000 ms, pulse 100 ms, limit 2: the first pulse
  fires at clock reading 5000, the pause is seen at the next poll, at 5101 (the next
  pulse was due at 6000), and after fourteen paused polls the resume is seen at 6501.
  A due time shifted by the 1400 ms of pause would be 7400; the task fires at the
  resume poll, at 6501.  Nothing fires at the paused polls.
\<close>

theorem resume_fires_without_shift:
  "pulse_loop
     (\<lparr>sys_running = True, ext_state = None, now = 5000\<rparr>
      # \<lparr>sys_running = True, ext_state = Some STATE_PAUSED, now = 5101\<rparr>
      # paused_polls_from 5201 13
      @ [\<lparr>sys_running = True, ext_state = Some STATE_RUNNING, now = 6501\<rparr>,
         \<lparr>sys_running = True, ext_state = None, now = 6602\<rparr>])
     ((limited_channel 2)\<lparr>state := STATE_RUNNING\<rparr>) 0 =
   Some ((limited_channel 2)\<lparr>state := STATE_RUNNING, pulse_count := 2\<rparr>, 6501,
         [GpioSet 4 0, TaskDelay 100, GpioSet 4 1, TaskDelay 1]
         @ replicate 14 (TaskDelay 100)
         @ [GpioSet 4 0, TaskDelay 100, GpioSet 4 1, TaskDelay 1])
   \<and> (6501 :: int) < (5000 + interval_ms (limited_channel 2)) + (6501 - 5101)"
  by code_simp

text \<open>
  Claim C1, amended.  From the poll \<open>q\<close> that sees the pause request, through the polls
  \<open>ps\<close> made while paused, no pulse is emitted: each of these polls only waits 100 ms,
  and \<open>pulse_count\<close> and \<open>last_pulse_time\<close> stay as they were.  At the poll \<open>r\<close> that sees
  the resume, a pulse fires exactly when the clock reading minus the unchanged
  \<open>last_pulse_time\<close> has reached \<open>interval_ms\<close>: the time spent paused counts toward the
  interval, and the due time is not shifted.
\<close>

theorem pause_then_resume:
  assumes "sys_running q" "ext_state q = Some STATE_PAUSED"
    and "\<forall>p\<in>set ps. sys_running p \<and> ext_state p \<noteq> Some STATE_RUNNING \<and> ext_state p \<noteq> Some STATE_STOPPED"
    and "max_pulses c = 0 \<or> pulse_count c < max_pulses c"
    and "sys_running r" "ext_state r = Some STATE_RUNNING"
  shows "pulse_loop (q # ps @ r # rest) c l =
           (if word_of_int (interval_ms c) \<le> now r - l
            then emit (replicate (Suc (length ps)) (TaskDelay 100)
                         @ generate_pulse (gpio c) (pulse_duration_ms c) @ [TaskDelay 1])
                   (pulse_loop rest (c\<lparr>state := STATE_RUNNING, pulse_count := pulse_count c + 1\<rparr>) (now r))
            else emit (replicate (Suc (length ps)) (TaskDelay 100) @ [TaskDelay 1])
                   (pulse_loop rest (c\<lparr>state := STATE_RUNNING\<rparr>) l))"
proof -
  let ?c = "c\<lparr>state := STATE_PAUSED\<rparr>"
  have st: "state ?c = STATE_PAUSED" by simp
  have lim: "max_pulses ?c = 0 \<or> pulse_count ?c < max_pulses ?c" using assms(4) by simp
  have q': "ext_state q \<noteq> Some STATE_RUNNING" "ext_state q \<noteq> Some STATE_STOPPED"
    using assms(2) by simp_all
  have all: "\<forall>p\<in>set (q # ps). sys_running p \<and> ext_state p \<noteq> Some STATE_RUNNING \<and> ext_state p \<noteq> Some STATE_STOPPED"
    using assms(1,3) q' by simp
  have w: "ext_write q c = ?c" using assms(2) by (simp add: ext_write_def)
  have "pulse_loop (q # ps @ r # rest) c l = pulse_loop (q # ps @ r # rest) ?c l"
    using w assms(2) by (simp add: ext_write_def)
  also have "\<dots> = pulse_loop ((q # ps) @ r # rest) ?c l" by simp
  also have "\<dots> = emit (replicate (length (q # ps)) (TaskDelay 100)) (pulse_loop (r # rest) ?c l)"
    using st all lim by (rule paused_polls)
  finally show ?thesis
    using resume_poll [OF assms(5,6) lim, of rest l] by (simp add: emit_emit)
qed

theorem pause_then_resume_witness:
  "pulse_loop (\<lparr>sys_running = True, ext_state = Some STATE_PAUSED, now = 5101\<rparr>
               # paused_polls_from 5201 13
               @ \<lparr>sys_running = True, ext_state = Some STATE_RUNNING, now = 6501\<rparr>
               # [\<lparr>sys_running = True, ext_state = None, now = 6602\<rparr>])
        ((limited_channel 2)\<lparr>state := STATE_RUNNING, pulse_count := 1\<rparr>) 5000 =
      Some ((limited_channel 2)\<lparr>state := STATE_RUNNING, pulse_count := 2\<rparr>, 6501,
            replicate 14 (TaskDelay 100) @ [GpioSet 4 0, TaskDelay 100, GpioSet 4 1, TaskDelay 1])"
proof -
  let ?c = "(limited_channel 2)\<lparr>state := STATE_RUNNING, pulse_count := 1\<rparr>"
  let ?q = "\<lparr>sys_running = True, ext_state = Some STATE_PAUSED, now = 5101\<rparr>"
  let ?r = "\<lparr>sys_running = True, ext_state = Some STATE_RUNNING, now = 6501\<rparr>"
  let ?rest = "[\<lparr>sys_running = True, ext_state = None, now = 6602\<rparr>]"
  have h1: "sys_running ?q" and h2: "ext_state ?q = Some STATE_PAUSED" by simp_all
  have h3: "\<forall>p\<in>set (paused_polls_from 5201 13).
      sys_running p \<and> ext_state p \<noteq> Some STATE_RUNNING \<and> ext_state p \<noteq> Some STATE_STOPPED"
    by (simp add: paused_polls_from_def)
  have h4: "max_pulses ?c = 0 \<or> pulse_count ?c < max_pulses ?c"
    by (simp add: limited_channel_def channel_1s_def)
  have h5: "sys_running ?r" and h6: "ext_state ?r = Some STATE_RUNNING" by simp_all
  have due: "word_of_int (interval_ms ?c) \<le> now ?r - (5000 :: 32 word)"
    by (simp add: limited_channel_def channel_1s_def)
  have fin: "pulse_loop ?rest (?c\<lparr>state := STATE_RUNNING, pulse_count := pulse_count ?c + 1\<rparr>) (now ?r)
      = Some ((limited_channel 2)\<lparr>state := STATE_RUNNING, pulse_count := 2\<rparr>, 6501, [])"
    by (simp add: loop_cond_def ext_write_def limited_channel_def channel_1s_def)
  have len: "length (paused_polls_from 5201 13) = 13" by (simp add: paused_polls_from_def)
  have g: "gpio ?c = 4" "pulse_duration_ms ?c = 100"
    by (simp_all add: limited_channel_def channel_1s_def)
  from pause_then_resume [OF h1 h2 h3 h4 h5 h6, of ?rest 5000] due
  have "pulse_loop (?q # paused_polls_from 5201 13 @ ?r # ?rest) ?c 5000 =
      emit (replicate (Suc (length (paused_polls_from 5201 13))) (TaskDelay 100)
                         @ generate_pulse (gpio ?c) (pulse_duration_ms ?c) @ [TaskDelay 1])
        (pulse_loop ?rest (?c\<lparr>state := STATE_RUNNING, pulse_count := pulse_count ?c + 1\<rparr>) (now ?r))"
    by (simp only: if_True)
  then show ?thesis
    unfolding fin len g by (simp add: generate_pulse_def numeral_eq_Suc)
qed

text \<open>
  Claim C8, as stated, fails.  The task is started when the clock reads 5000, with an
  interval of 1000 ms and a limit of one pulse: the first poll already fires, although
  no interval has passed since activation.
\<close>

theorem first_pulse_at_activation:
  "pulse_task [\<lparr>sys_running = True, ext_state = None, now = 5000\<rparr>,
               \<lparr>sys_running = True, ext_state = None, now = 5101\<rparr>] (Some (limited_channel 1)) =
     Some (Some ((limited_channel 1)\<lparr>pulse_count := 1\<rparr>),
           [GpioSet 4 1, GpioSet 4 0, TaskDelay 100, GpioSet 4 1, TaskDelay 1,
            GpioSet 4 0, TaskDelay 100, GpioSet 4 1, TaskDelay 100,
            GpioSet 4 0, TaskDelay 100, GpioSet 4 1, TaskDelay 100,
            GpioSet 4 0, TaskDelay 100, GpioSet 4 1, TaskDelay 100])
   \<and> (5000 :: int) < 5000 + interval_ms (limited_channel 1)"
  by code_simp

text \<open>
  Claim C8, amended.  On activation the task drives the line high, sets the state to
  \<open>STATE_RUNNING\<close> and the pulse counter to 0, and starts with \<open>last_pulse_time = 0\<close>, the
  zero of the clock, not the activation time.  So the first poll (running, no pause
  request) fires a pulse exactly when the clock reading itself has reached
  \<open>interval_ms\<close>; otherwise it waits 1 ms and keeps the reference 0.
\<close>

theorem first_poll_after_activation:
  assumes "sys_running p" "ext_state p = None" "max_pulses c = 0 \<or> 0 < max_pulses c"
  shows "pulse_task (p # rest) (Some c) =
     (if word_of_int (interval_ms c) \<le> now p
      then task_end (emit (GpioSet (gpio c) 1 # generate_pulse (gpio c) (pulse_duration_ms c) @ [TaskDelay 1])
             (pulse_loop rest (c\<lparr>state := STATE_RUNNING, pulse_count := 1\<rparr>) (now p)))
      else task_end (emit [GpioSet (gpio c) 1, TaskDelay 1]
             (pulse_loop rest (c\<lparr>state := STATE_RUNNING, pulse_count := 0\<rparr>) 0)))"
  using first_poll [OF assms, of rest]
  by (simp add: pulse_task_def emit_emit)

theorem first_poll_after_activation_witness:
  "pulse_task (\<lparr>sys_running = True, ext_state = None, now = 400\<rparr>
               # [\<lparr>sys_running = True, ext_state = None, now = 1000\<rparr>,
                  \<lparr>sys_running = True, ext_state = None, now = 1101\<rparr>]) (Some (limited_channel 1)) =
     Some (Some ((limited_channel 1)\<lparr>pulse_count := 1\<rparr>),
           [GpioSet 4 1, TaskDelay 1, GpioSet 4 0, TaskDelay 100, GpioSet 4 1, TaskDelay 1,
            GpioSet 4 0, TaskDelay 100, GpioSet 4 1, TaskDelay 100,
            GpioSet 4 0, TaskDelay 100, GpioSet 4 1, TaskDelay 100,
            GpioSet 4 0, TaskDelay 100, GpioSet 4 1, TaskDelay 100])"
proof -
  let ?p = "\<lparr>sys_running = True, ext_state = None, now = 400\<rparr>"
  let ?rest = "[\<lparr>sys_running = True, ext_state = None, now = 1000\<rparr>,
                \<lparr>sys_running = True, ext_state = None, now = 1101\<rparr>]"
  have h: "sys_running ?p" "ext_state ?p = None" "max_pulses (limited_channel 1) = 0 \<or> 0 < max_pulses (limited_channel 1)"
    by (simp_all add: limited_channel_def channel_1s_def)
  have nd: "\<not> word_of_int (interval_ms (limited_channel 1)) \<le> now ?p"
    by (simp add: limited_channel_def channel_1s_def)
  have r: "task_end (emit [GpioSet (gpio (limited_channel 1)) 1, TaskDelay 1]
             (pulse_loop ?rest ((limited_channel 1)\<lparr>state := STATE_RUNNING, pulse_count := 0\<rparr>) 0)) =
     Some (Some ((limited_channel 1)\<lparr>pulse_count := 1\<rparr>),
           [GpioSet 4 1, TaskDelay 1, GpioSet 4 0, TaskDelay 100, GpioSet 4 1, TaskDelay 1,
            GpioSet 4 0, TaskDelay 100, GpioSet 4 1, TaskDelay 100,
            GpioSet 4 0, TaskDelay 100, GpioSet 4 1, TaskDelay 100,
            GpioSet 4 0, TaskDelay 100, GpioSet 4 1, TaskDelay 100])"
    by code_simp
  from first_poll_after_activation [OF h, of ?rest] nd r show ?thesis by (simp only: if_False)
qed

text \<open>
  Claim C9.  Started with a null configuration, the task returns at once, whatever the
  polls would have been: no event (no line level, no delay, no end-of-run toggle), no
  configuration touched; the shared session state, with the other channel's slot and
  the flags read by the session controller, is left as it was.
\<close>

theorem null_config:
  "pulse_task ps None = Some (None, []) \<and> task_on w None ps = Some (w, [])"
  by (simp add: pulse_task_def task_on_def)

text \<open>
  Claim C5 on \<open>handle_pause_system\<close>: output 1 reaches its limit of one pulse and its task
  sets \<open>STATE_STOPPED\<close>; output 2 is still running.  A pause request then stores
  \<open>STATE_PAUSED\<close> into both slots, and the following resume request \<open>STATE_RUNNING\<close>, so the
  stopped channel's phase is \<open>Paused\<close> and then \<open>Running\<close> again.
\<close>

theorem pause_broadcast_revives_stopped:
  "map_option (\<lambda>(w, evs). map state (active_configs w))
     (task_on two_channels (Some 0)
        [\<lparr>sys_running = True, ext_state = None, now = 5000\<rparr>,
         \<lparr>sys_running = True, ext_state = None, now = 5101\<rparr>]) =
     Some [STATE_STOPPED, STATE_RUNNING]
   \<and> map_option (\<lambda>(w, evs). map state (active_configs (handle_pause_system w)))
     (task_on two_channels (Some 0)
        [\<lparr>sys_running = True, ext_state = None, now = 5000\<rparr>,
         \<lparr>sys_running = True, ext_state = None, now = 5101\<rparr>]) =
     Some [STATE_PAUSED, STATE_PAUSED]
   \<and> map_option (\<lambda>(w, evs). map state (active_configs (handle_pause_system (handle_pause_system w))))
     (task_on two_channels (Some 0)
        [\<lparr>sys_running = True, ext_state = None, now = 5000\<rparr>,
         \<lparr>sys_running = True, ext_state = None, now = 5101\<rparr>]) =
     Some [STATE_RUNNING, STATE_RUNNING]"
  by code_simp

text \<open>
  Claim C2 on the second variant: the entries 2 ms, 10 ms, random mode, limit 2 are
  accepted by \<open>configure_output\<close>, and the task, which never reads \<open>mode\<close>, tests the
  elapsed time against the base interval 2, which is not above the pulse duration 10:
  started at clock reading 5000 it fires at once and again at the next poll, 11 ms
  later, the line having been high for 1 ms.
  The loop's result does not depend on \<open>mode\<close> at all (\<open>pulse_loop_ignores_mode\<close>).
  (The first variant's \<open>pulse_task_interval_v1\<close> keeps every interval within
  \<open>[pulse_duration_ms + 1, interval_ms]\<close> for the configurations its
  \<open>configure_single_output\<close> accepts: \<open>pulse_task_interval_v1_bounds\<close>,
  \<open>configure_single_output_valid\<close>.)
\<close>

theorem interval_not_above_pulse_duration:
  "configure_output 1 GPIO_OUT_1 zero_config
       (CHR ''I'' # ''2'' @ CHR 0x0D # ''10'' @ CHR 0x0D # CHR ''R'' # CHR ''S'' # ''2'' @ [CHR 0x0D]) =
     Inr ((True, short_interval_channel), [])
   \<and> pulse_task [\<lparr>sys_running = True, ext_state = None, now = 5000\<rparr>,
                 \<lparr>sys_running = True, ext_state = None, now = 5011\<rparr>,
                 \<lparr>sys_running = True, ext_state = None, now = 5022\<rparr>] (Some short_interval_channel) =
     Some (Some (short_interval_channel\<lparr>pulse_count := 2\<rparr>),
           [GpioSet 4 1,
            GpioSet 4 0, TaskDelay 10, GpioSet 4 1, TaskDelay 1,
            GpioSet 4 0, TaskDelay 10, GpioSet 4 1, TaskDelay 1,
            GpioSet 4 0, TaskDelay 100, GpioSet 4 1, TaskDelay 100,
            GpioSet 4 0, TaskDelay 100, GpioSet 4 1, TaskDelay 100,
            GpioSet 4 0, TaskDelay 100, GpioSet 4 1, TaskDelay 100])
   \<and> mode short_interval_channel = MODE_RANDOM
   \<and> interval_ms short_interval_channel \<le> pulse_duration_ms short_interval_channel"
  by code_simp

end
